theory Spec2Isabelle
  imports Main "HOL-Library.Char_ord" "HOL-Library.List_Lexorder"
begin

section \<open>The table \<open>canais\<close> of \<open>bot_data.db\<close>\<close>

text \<open>
  The table has two columns, \<open>chat_id INTEGER PRIMARY KEY\<close> and
  \<open>last_interaction_date TEXT\<close> (nullable). A row is a pair of the key and the
  nullable text; the table is the list of its rows in the order in which
  \<open>SELECT * FROM canais\<close> returns them. The primary key constraint is the predicate
  \<open>primary_key\<close>: no two rows share a \<open>chat_id\<close>.
\<close>

type_synonym row = "int \<times> string option"

definition primary_key :: "row list \<Rightarrow> bool" where
  "primary_key tbl = distinct (map fst tbl)"

text \<open>
  \<open>get_last_interaction_date\<close>: \<open>SELECT last_interaction_date FROM canais WHERE chat_id = ?\<close>,
  \<open>fetchone()\<close>, then \<open>result[0] if result else None\<close>: the text of the first matching
  row, \<open>None\<close> when that text is NULL and \<open>None\<close> when no row matches.
\<close>

definition get_last_interaction_date :: "int \<Rightarrow> row list \<Rightarrow> string option" where
  "get_last_interaction_date canal_id tbl =
     (case map_of tbl canal_id of None \<Rightarrow> None | Some result \<Rightarrow> result)"

text \<open>
  \<open>update_last_interaction_date\<close>:
  \<open>UPDATE canais SET last_interaction_date = ? WHERE chat_id = ?\<close>. Every row whose key
  matches gets the new text; the other rows stay as they are.
\<close>

definition update_last_interaction_date :: "int \<Rightarrow> string \<Rightarrow> row list \<Rightarrow> row list" where
  "update_last_interaction_date canal_id date tbl =
     map (\<lambda>r. if fst r = canal_id then (fst r, Some date) else r) tbl"

text \<open>
  \<open>add_canal\<close>: \<open>INSERT OR IGNORE INTO canais (chat_id) VALUES (?)\<close>. A plain INSERT of
  a key that is already there violates the primary key (\<open>IntegrityError\<close>);
  \<open>OR IGNORE\<close> resolves the conflict by skipping the row. The new row has a NULL date.
\<close>

datatype sql_error = IntegrityError

definition insert_canal :: "int \<Rightarrow> row list \<Rightarrow> sql_error + row list" where
  "insert_canal chat_id tbl =
     (if chat_id \<in> set (map fst tbl) then Inl IntegrityError
      else Inr (tbl @ [(chat_id, None)]))"

definition add_canal :: "int \<Rightarrow> row list \<Rightarrow> row list" where
  "add_canal chat_id tbl =
     (case insert_canal chat_id tbl of Inl IntegrityError \<Rightarrow> tbl | Inr tbl' \<Rightarrow> tbl')"

definition get_canais :: "row list \<Rightarrow> row list" where
  "get_canais tbl = tbl"

text \<open>The number of rows stored for a channel.\<close>

definition stored_rows :: "int \<Rightarrow> row list \<Rightarrow> nat" where
  "stored_rows chat_id tbl = length (filter (\<lambda>r. fst r = chat_id) tbl)"

section \<open>Transport, clock and log\<close>

text \<open>
  A handler talks to three collaborators: the Telegram transport
  (\<open>bot.send_message\<close>, which returns or raises), the process clock
  (\<open>datetime.now()\<close>) and the logger. What a handler does to them is the list of its
  events, in order; a call of \<open>bot.send_message\<close> is recorded with its outcome
  (\<open>None\<close>: it returned, \<open>Some e\<close>: it raised \<open>e\<close>).

  The texts are the fixed literals of the source.
\<close>

datatype message_text =
    welcome_text
  | broadcast_text
  | start_text
  | cadastrar_canal_text
  | como_funciona_text

datatype exc = Exception string

datatype log_line =
    canal_registrado int
  | erro_boas_vindas int exc
  | canal_ja_atualizado int
  | erro_enviar int exc
  | no_error_handlers exc

datatype event =
    asyncio_sleep nat
  | bot_send_message int message_text "exc option"
  | logger_info log_line
  | logger_error log_line
  | reply_text message_text
  | query_answer
  | edit_message_text message_text

text \<open>
  One reading of the clock. \<open>datetime.now()\<close> has no \<open>tz\<close> argument, so it is the
  wall clock of the zone the process runs in; \<open>local_date\<close> is what
  \<open>strftime("%Y-%m-%d")\<close> prints for it. \<open>brasilia_date\<close> is the calendar date of the
  same moment in \<open>brasilia_tz\<close> (\<open>America/Sao_Paulo\<close>), the zone the scheduler's jobs
  are registered in.
\<close>

record instant =
  local_date :: string
  brasilia_date :: string

text \<open>
  The environment of one handler invocation. The clock and the transport are indexed
  by the iteration of the dispatcher's loop in which they are used (the welcome flow
  makes its one call at index 0), so every reading and every call may have its own
  outcome.
\<close>

record env =
  bot_id :: int
  datetime_now :: "nat \<Rightarrow> instant"
  send_message :: "nat \<Rightarrow> int \<Rightarrow> message_text \<Rightarrow> exc option"

text \<open>The calls of \<open>bot.send_message\<close> among the events, with their outcomes.\<close>

fun sends :: "event list \<Rightarrow> (int \<times> message_text \<times> exc option) list" where
  "sends [] = []"
| "sends (bot_send_message chat txt outcome # evs) = (chat, txt, outcome) # sends evs"
| "sends (_ # evs) = sends evs"

definition attempted :: "event list \<Rightarrow> int list" where
  "attempted evs = map fst (sends evs)"

definition delivered :: "event list \<Rightarrow> int list" where
  "delivered evs = map fst (filter (\<lambda>s. snd (snd s) = None) (sends evs))"

section \<open>Membership watcher\<close>

text \<open>
  \<open>send_welcome_message\<close>: inside one \<open>try\<close>, send the welcome text, then
  \<open>add_canal\<close>, then log the registration; \<open>except Exception\<close> logs the error. When
  the send raises, the rest of the \<open>try\<close> block is not run.
\<close>

definition send_welcome_message :: "env \<Rightarrow> int \<Rightarrow> row list \<Rightarrow> event list \<times> row list" where
  "send_welcome_message ctx chat tbl =
     (case send_message ctx 0 chat welcome_text of
        None \<Rightarrow>
          ([bot_send_message chat welcome_text None, logger_info (canal_registrado chat)],
           add_canal chat tbl)
      | Some e \<Rightarrow>
          ([bot_send_message chat welcome_text (Some e), logger_error (erro_boas_vindas chat e)],
           tbl))"

text \<open>
  The update is a \<open>telegram.Update\<close>. Of its attributes the model keeps the two that
  carry a membership change: \<open>chat_member\<close> (another member of a chat changed) and
  \<open>my_chat_member\<close> (the bot's own membership changed); each is \<open>None\<close> unless the
  update is of that kind. A \<open>ChatMemberUpdated\<close> carries its chat, the old member and
  the new member. A \<open>telegram.Update\<close> has no attribute \<open>chat\<close>; reading one raises
  \<open>AttributeError\<close>, as reading an attribute of \<open>None\<close> does.
\<close>

definition AttributeError :: "string \<Rightarrow> exc" where
  "AttributeError msg = Exception (''AttributeError: '' @ msg)"

record ChatMember =
  user_id :: int
  status :: string

record ChatMemberUpdated =
  member_chat_id :: int
  old_chat_member :: ChatMember
  new_chat_member :: ChatMember

record Update =
  chat_member :: "ChatMemberUpdated option"
  my_chat_member :: "ChatMemberUpdated option"

text \<open>\<open>update.chat\<close>: the attribute lookup of line 105.\<close>

definition update_chat :: "Update \<Rightarrow> exc + int" where
  "update_chat update = Inl (AttributeError ''Update object has no attribute chat'')"

text \<open>
  \<open>on_chat_member_update\<close> has no \<open>try\<close> of its own, so an exception raised in it
  leaves the handler (\<open>Inl\<close>). It reads \<open>update.chat_member\<close> and then
  \<open>.new_chat_member\<close> of it, which raises when the former is \<open>None\<close>; when the new
  member is the bot and its status is administrator or creator it reads
  \<open>update.chat.id\<close> and passes it to \<open>send_welcome_message\<close>. The old member is
  never read.
\<close>

definition on_chat_member_update ::
    "Update \<Rightarrow> env \<Rightarrow> row list \<Rightarrow> exc + event list \<times> row list" where
  "on_chat_member_update update ctx tbl =
     (case chat_member update of
        None \<Rightarrow> Inl (AttributeError ''NoneType object has no attribute new_chat_member'')
      | Some new_member \<Rightarrow>
          if user_id (new_chat_member new_member) = bot_id ctx then
            if status (new_chat_member new_member) \<in> set [''administrator'', ''creator''] then
              (case update_chat update of
                 Inl e \<Rightarrow> Inl e
               | Inr chat \<Rightarrow> Inr (send_welcome_message ctx chat tbl))
            else Inr ([], tbl)
          else Inr ([], tbl))"

section \<open>Broadcast dispatcher\<close>

text \<open>
  One iteration of the loop of \<open>enviar_mensagem_programada\<close>, for the row \<open>canal\<close> of
  the snapshot, in iteration \<open>k\<close>: read the stored date from the table as it is now,
  read the clock, skip when they are equal; otherwise sleep 5 seconds and send. When
  the send returns the date is updated; when it raises, the error is logged and the
  loop sleeps 10 seconds and goes on.
\<close>

definition enviar_canal :: "env \<Rightarrow> nat \<Rightarrow> row \<Rightarrow> row list \<Rightarrow> event list \<times> row list" where
  "enviar_canal the_bot k canal tbl =
     (let canal_id = fst canal;
          last_interaction = get_last_interaction_date canal_id tbl;
          today = local_date (datetime_now the_bot k)
      in if last_interaction = Some today then
           ([logger_info (canal_ja_atualizado canal_id)], tbl)
         else
           (case send_message the_bot k canal_id broadcast_text of
              None \<Rightarrow>
                ([asyncio_sleep 5, bot_send_message canal_id broadcast_text None],
                 update_last_interaction_date canal_id today tbl)
            | Some e \<Rightarrow>
                ([asyncio_sleep 5, bot_send_message canal_id broadcast_text (Some e),
                  logger_error (erro_enviar canal_id e), asyncio_sleep 10],
                 tbl)))"

fun enviar_canais :: "env \<Rightarrow> nat \<Rightarrow> row list \<Rightarrow> row list \<Rightarrow> event list \<times> row list" where
  "enviar_canais the_bot k [] tbl = ([], tbl)"
| "enviar_canais the_bot k (canal # canais) tbl =
     (case enviar_canal the_bot k canal tbl of
        (evs, tbl') \<Rightarrow>
          (case enviar_canais the_bot (Suc k) canais tbl' of
             (evs', tbl'') \<Rightarrow> (evs @ evs', tbl'')))"

definition enviar_mensagem_programada :: "env \<Rightarrow> row list \<Rightarrow> event list \<times> row list" where
  "enviar_mensagem_programada the_bot tbl = enviar_canais the_bot 0 (get_canais tbl) tbl"

text \<open>
  The eligibility rule in the words of the specification: the stored date is absent
  or strictly less than today's date. Dates are \<open>%Y-%m-%d\<close> texts, compared as
  texts.
\<close>

definition spec_eligible :: "string option \<Rightarrow> string \<Rightarrow> bool" where
  "spec_eligible last_broadcast_date today =
     (case last_broadcast_date of None \<Rightarrow> True | Some d \<Rightarrow> d < today)"

text \<open>
  The invariant of the data model, in the words of the specification: the stored
  date, when present, is never in the future relative to process time.
\<close>

definition spec_not_future :: "string option \<Rightarrow> string \<Rightarrow> bool" where
  "spec_not_future last_broadcast_date today =
     (case last_broadcast_date of None \<Rightarrow> True | Some d \<Rightarrow> d \<le> today)"

subsection \<open>The loop with the exception as a value\<close>

text \<open>
  The same loop, with what \<open>bot.send_message\<close> raises kept as a value (\<open>Inl\<close>) until
  a handler catches it, so that an exception leaving the run is a result of the model.
  \<open>enviar_try\<close> is the \<open>try\<close> block (the send, then the update of the date, which is
  not reached when the send raises); \<open>enviar_except\<close> is \<open>except Exception as e\<close>
  (log, sleep 10 seconds, the table as it was before the \<open>try\<close>). In the loop an
  exception that leaves an iteration ends the run.
\<close>

definition enviar_try ::
    "env \<Rightarrow> nat \<Rightarrow> int \<Rightarrow> string \<Rightarrow> row list \<Rightarrow> event list \<times> (exc + row list)" where
  "enviar_try the_bot k canal_id today tbl =
     (case send_message the_bot k canal_id broadcast_text of
        None \<Rightarrow>
          ([bot_send_message canal_id broadcast_text None],
           Inr (update_last_interaction_date canal_id today tbl))
      | Some e \<Rightarrow> ([bot_send_message canal_id broadcast_text (Some e)], Inl e))"

definition enviar_except ::
    "int \<Rightarrow> row list \<Rightarrow> event list \<times> (exc + row list) \<Rightarrow> event list \<times> (exc + row list)" where
  "enviar_except canal_id tbl r =
     (case r of
        (evs, Inl e) \<Rightarrow>
          (evs @ [logger_error (erro_enviar canal_id e), asyncio_sleep 10], Inr tbl)
      | (evs, Inr tbl') \<Rightarrow> (evs, Inr tbl'))"

definition enviar_canal_exc ::
    "env \<Rightarrow> nat \<Rightarrow> row \<Rightarrow> row list \<Rightarrow> event list \<times> (exc + row list)" where
  "enviar_canal_exc the_bot k canal tbl =
     (let canal_id = fst canal;
          last_interaction = get_last_interaction_date canal_id tbl;
          today = local_date (datetime_now the_bot k)
      in if last_interaction = Some today then
           ([logger_info (canal_ja_atualizado canal_id)], Inr tbl)
         else
           (case enviar_except canal_id tbl (enviar_try the_bot k canal_id today tbl) of
              (evs, r) \<Rightarrow> (asyncio_sleep 5 # evs, r)))"

fun enviar_canais_exc ::
    "env \<Rightarrow> nat \<Rightarrow> row list \<Rightarrow> row list \<Rightarrow> event list \<times> (exc + row list)" where
  "enviar_canais_exc the_bot k [] tbl = ([], Inr tbl)"
| "enviar_canais_exc the_bot k (canal # canais) tbl =
     (case enviar_canal_exc the_bot k canal tbl of
        (evs, Inl e) \<Rightarrow> (evs, Inl e)
      | (evs, Inr tbl') \<Rightarrow>
          (case enviar_canais_exc the_bot (Suc k) canais tbl' of
             (evs', r) \<Rightarrow> (evs @ evs', r)))"

definition enviar_mensagem_programada_exc ::
    "env \<Rightarrow> row list \<Rightarrow> event list \<times> (exc + row list)" where
  "enviar_mensagem_programada_exc the_bot tbl =
     enviar_canais_exc the_bot 0 (get_canais tbl) tbl"

section \<open>Interactive menu\<close>

definition start :: "event list" where
  "start = [reply_text start_text]"

definition button :: "string \<Rightarrow> event list" where
  "button query_data =
     (if query_data = ''cadastrar_canal'' then [query_answer, edit_message_text cadastrar_canal_text]
      else if query_data = ''como_funciona'' then [query_answer, edit_message_text como_funciona_text]
      else [query_answer])"

section \<open>The process\<close>

text \<open>
  The configuration read at import time: \<open>BOT_TOKEN\<close> is the result of
  \<open>os.getenv\<close>, \<open>ADMIN_ID\<close> the integer made from its variable. The check
  \<open>if not BOT_TOKEN or not ADMIN_ID\<close> logs an error and exits with status 1; a token
  is false when it is absent or empty, an integer when it is 0.
\<close>

record config =
  BOT_TOKEN :: "string option"
  ADMIN_ID :: int

definition config_missing :: "config \<Rightarrow> bool" where
  "config_missing cfg =
     ((BOT_TOKEN cfg = None \<or> BOT_TOKEN cfg = Some []) \<or> ADMIN_ID cfg = 0)"

text \<open>
  What reaches the process once it polls: a chat-member update, a firing of one of the
  four cron jobs, a \<open>/start\<close> command, a callback query with its data. Each invocation
  comes with its own environment.

  The watcher is registered as \<open>ChatMemberHandler(on_chat_member_update)\<close>, with the
  handler's default kind: it is called for the updates whose \<open>my_chat_member\<close> is
  set, and for no other. An exception that leaves a handler is caught by the
  application, which logs it (no error handler is registered) and goes on polling.
\<close>

datatype incoming =
    chat_member_event Update env
  | cron_job env
  | start_command
  | callback_query string

fun handle :: "incoming \<Rightarrow> row list \<Rightarrow> event list \<times> row list" where
  "handle (chat_member_event update ctx) tbl =
     (case my_chat_member update of
        None \<Rightarrow> ([], tbl)
      | Some _ \<Rightarrow>
          (case on_chat_member_update update ctx tbl of
             Inl e \<Rightarrow> ([logger_error (no_error_handlers e)], tbl)
           | Inr r \<Rightarrow> r))"
| "handle (cron_job the_bot) tbl = enviar_mensagem_programada the_bot tbl"
| "handle start_command tbl = (start, tbl)"
| "handle (callback_query query_data) tbl = (button query_data, tbl)"

fun run_polling :: "incoming list \<Rightarrow> row list \<Rightarrow> event list \<times> row list" where
  "run_polling [] tbl = ([], tbl)"
| "run_polling (u # us) tbl =
     (case handle u tbl of
        (evs, tbl') \<Rightarrow>
          (case run_polling us tbl' of (evs', tbl'') \<Rightarrow> (evs @ evs', tbl'')))"

datatype exit_status = exit_1

definition bot_process :: "config \<Rightarrow> incoming list \<Rightarrow> row list \<Rightarrow> exit_status + event list \<times> row list" where
  "bot_process cfg us tbl =
     (if config_missing cfg then Inl exit_1 else Inr (run_polling us tbl))"

section \<open>Scenarios\<close>

text \<open>
  Concrete environments and updates, used to run the handlers. The clock of a scenario
  reads the same two dates at every iteration. On \<open>host_brasilia\<close> the process runs in
  the zone of Brasilia; on \<open>host_utc\<close> it runs in UTC and the job registered for
  21:30 in Brasilia fires at 00:30 of the next UTC day.
\<close>

definition fixed_clock :: "string \<Rightarrow> string \<Rightarrow> nat \<Rightarrow> instant" where
  "fixed_clock local brasilia = (\<lambda>k. \<lparr>local_date = local, brasilia_date = brasilia\<rparr>)"

definition all_delivered :: "nat \<Rightarrow> int \<Rightarrow> message_text \<Rightarrow> exc option" where
  "all_delivered = (\<lambda>k chat txt. None)"

definition raises_for :: "int \<Rightarrow> nat \<Rightarrow> int \<Rightarrow> message_text \<Rightarrow> exc option" where
  "raises_for c = (\<lambda>k chat txt. if chat = c then Some (Exception ''Forbidden'') else None)"

definition host_brasilia :: env where
  "host_brasilia =
     \<lparr>bot_id = 7, datetime_now = fixed_clock ''2024-01-02'' ''2024-01-02'',
      send_message = all_delivered\<rparr>"

definition host_brasilia_200_fails :: env where
  "host_brasilia_200_fails =
     \<lparr>bot_id = 7, datetime_now = fixed_clock ''2024-01-02'' ''2024-01-02'',
      send_message = raises_for 200\<rparr>"

definition host_utc :: env where
  "host_utc =
     \<lparr>bot_id = 7, datetime_now = fixed_clock ''2024-01-02'' ''2024-01-01'',
      send_message = all_delivered\<rparr>"

text \<open>
  The bot (id 7) is promoted from \<open>left\<close> to \<open>administrator\<close> in the chat -1001:
  \<open>promoted\<close> is the update as Telegram delivers it (a \<open>my_chat_member\<close> update);
  \<open>promoted_as_chat_member\<close> carries the same change in \<open>chat_member\<close>.
\<close>

definition promotion :: ChatMemberUpdated where
  "promotion =
     \<lparr>member_chat_id = - 1001,
      old_chat_member = \<lparr>user_id = 7, status = ''left''\<rparr>,
      new_chat_member = \<lparr>user_id = 7, status = ''administrator''\<rparr>\<rparr>"

definition promoted :: Update where
  "promoted = \<lparr>chat_member = None, my_chat_member = Some promotion\<rparr>"

definition promoted_as_chat_member :: Update where
  "promoted_as_chat_member = \<lparr>chat_member = Some promotion, my_chat_member = None\<rparr>"

definition configured :: config where
  "configured = \<lparr>BOT_TOKEN = Some ''123:abc'', ADMIN_ID = 42\<rparr>"

section \<open>Properties of the store\<close>

lemma add_canal_known: "chat_id \<in> set (map fst tbl) \<Longrightarrow> add_canal chat_id tbl = tbl"
  by (simp add: add_canal_def insert_canal_def)

lemma add_canal_new:
  "chat_id \<notin> set (map fst tbl) \<Longrightarrow> add_canal chat_id tbl = tbl @ [(chat_id, None)]"
  by (simp add: add_canal_def insert_canal_def)

lemma add_canal_member: "chat_id \<in> set (map fst (add_canal chat_id tbl))"
  by (cases "chat_id \<in> set (map fst tbl)") (simp_all add: add_canal_known add_canal_new)

lemma stored_rows_absent: "chat_id \<notin> set (map fst tbl) \<Longrightarrow> stored_rows chat_id tbl = 0"
  by (induction tbl) (auto simp: stored_rows_def)

lemma stored_rows_present:
  "distinct (map fst tbl) \<Longrightarrow> chat_id \<in> set (map fst tbl) \<Longrightarrow> stored_rows chat_id tbl = 1"
proof (induction tbl)
  case Nil
  then show ?case by simp
next
  case (Cons r tbl)
  show ?case
  proof (cases "fst r = chat_id")
    case True
    with Cons.prems have "chat_id \<notin> set (map fst tbl)" by auto
    then have "stored_rows chat_id tbl = 0" by (rule stored_rows_absent)
    with True show ?thesis by (simp add: stored_rows_def)
  next
    case False
    with Cons have "stored_rows chat_id tbl = 1" by auto
    with False show ?thesis by (simp add: stored_rows_def)
  qed
qed

lemma primary_key_add_canal: "primary_key tbl \<Longrightarrow> primary_key (add_canal chat_id tbl)"
  by (cases "chat_id \<in> set (map fst tbl)")
     (simp_all add: add_canal_known add_canal_new primary_key_def)

lemma map_fst_update [simp]:
  "map fst (update_last_interaction_date canal_id date tbl) = map fst tbl"
  by (induction tbl) (simp_all add: update_last_interaction_date_def)

lemma update_unknown:
  "canal_id \<notin> set (map fst tbl) \<Longrightarrow> update_last_interaction_date canal_id date tbl = tbl"
  by (induction tbl) (auto simp: update_last_interaction_date_def)

text \<open>
  C7. Registering is idempotent: under the primary key, registering a channel twice
  leaves exactly one row for it and is the same as registering it once; registering a
  channel that is already stored returns the table as it was, so the stored date of
  that channel is the one it had. \<open>add_canal\<close> has no error result: the conflict of
  the INSERT is resolved inside it.
\<close>

theorem add_canal_idempotent:
  assumes "primary_key tbl"
  shows "add_canal chat_id (add_canal chat_id tbl) = add_canal chat_id tbl
       \<and> stored_rows chat_id (add_canal chat_id (add_canal chat_id tbl)) = 1
       \<and> (chat_id \<in> set (map fst tbl) \<longrightarrow>
            add_canal chat_id tbl = tbl
          \<and> get_last_interaction_date chat_id (add_canal chat_id tbl)
              = get_last_interaction_date chat_id tbl)"
proof -
  have twice: "add_canal chat_id (add_canal chat_id tbl) = add_canal chat_id tbl"
    by (rule add_canal_known) (rule add_canal_member)
  have "primary_key (add_canal chat_id tbl)"
    using assms by (rule primary_key_add_canal)
  then have "stored_rows chat_id (add_canal chat_id tbl) = 1"
    unfolding primary_key_def by (rule stored_rows_present) (rule add_canal_member)
  with twice show ?thesis by (simp add: add_canal_known)
qed

theorem add_canal_idempotent_witness:
  "primary_key [(100, Some ''2024-01-01''), (200, None)]
   \<and> add_canal 100 (add_canal 100 [(100, Some ''2024-01-01''), (200, None)])
       = [(100, Some ''2024-01-01''), (200, None)]
   \<and> stored_rows 100 (add_canal 100 (add_canal 100 [(100, Some ''2024-01-01''), (200, None)])) = 1
   \<and> get_last_interaction_date 100 (add_canal 100 [(100, Some ''2024-01-01''), (200, None)])
       = Some ''2024-01-01''"
proof -
  have pk: "primary_key [(100, Some ''2024-01-01''), (200, None)]"
    by (simp add: primary_key_def)
  show ?thesis
    using pk add_canal_idempotent [OF pk, of 100]
    by (simp add: get_last_interaction_date_def add_canal_def insert_canal_def stored_rows_def)
qed

text \<open>
  C9. Updating the date of a channel that has no row changes nothing: the UPDATE
  matches no row, and the function returns the table as it was (it has no error
  result).
\<close>

theorem update_unknown_channel_noop:
  "canal_id \<notin> set (map fst tbl) \<Longrightarrow> update_last_interaction_date canal_id date tbl = tbl"
  by (rule update_unknown)

theorem update_unknown_channel_noop_witness:
  "(300::int) \<notin> set (map fst [(100, Some ''2024-01-01''), (200, None)])
   \<and> update_last_interaction_date 300 ''2024-01-02'' [(100, Some ''2024-01-01''), (200, None)]
       = [(100, Some ''2024-01-01''), (200, None)]"
  using update_unknown_channel_noop [of 300 "[(100, Some ''2024-01-01''), (200, None)]" "''2024-01-02''"]
  by simp

section \<open>Properties of the dispatcher\<close>

lemma sends_append: "sends (xs @ ys) = sends xs @ sends ys"
  by (induction xs rule: sends.induct) simp_all

lemma attempted_append: "attempted (xs @ ys) = attempted xs @ attempted ys"
  by (simp add: attempted_def sends_append)

lemma delivered_append: "delivered (xs @ ys) = delivered xs @ delivered ys"
  by (simp add: delivered_def sends_append)

lemma lookup_row:
  "distinct (map fst tbl) \<Longrightarrow> (c, d) \<in> set tbl \<Longrightarrow> get_last_interaction_date c tbl = d"
  by (simp add: get_last_interaction_date_def)

lemma lookup_update_other:
  "c \<noteq> canal_id \<Longrightarrow>
   get_last_interaction_date c (update_last_interaction_date canal_id date tbl)
     = get_last_interaction_date c tbl"
  by (induction tbl) (auto simp: get_last_interaction_date_def update_last_interaction_date_def)

lemma lookup_update_same:
  "c \<in> set (map fst tbl) \<Longrightarrow>
   get_last_interaction_date c (update_last_interaction_date c date tbl) = Some date"
  by (induction tbl) (auto simp: get_last_interaction_date_def update_last_interaction_date_def)

lemma update_rows:
  "r \<in> set (update_last_interaction_date canal_id date tbl) \<Longrightarrow>
   r \<in> set tbl \<or> r = (canal_id, Some date)"
  by (auto simp: update_last_interaction_date_def split: if_splits)

text \<open>One iteration.\<close>

lemma enviar_canal_skip:
  "get_last_interaction_date (fst canal) tbl = Some (local_date (datetime_now b k)) \<Longrightarrow>
   enviar_canal b k canal tbl = ([logger_info (canal_ja_atualizado (fst canal))], tbl)"
  by (simp add: enviar_canal_def)

lemma enviar_canal_ok:
  "get_last_interaction_date (fst canal) tbl \<noteq> Some (local_date (datetime_now b k)) \<Longrightarrow>
   send_message b k (fst canal) broadcast_text = None \<Longrightarrow>
   enviar_canal b k canal tbl =
     ([asyncio_sleep 5, bot_send_message (fst canal) broadcast_text None],
      update_last_interaction_date (fst canal) (local_date (datetime_now b k)) tbl)"
  by (simp add: enviar_canal_def Let_def)

lemma enviar_canal_raises:
  "get_last_interaction_date (fst canal) tbl \<noteq> Some (local_date (datetime_now b k)) \<Longrightarrow>
   send_message b k (fst canal) broadcast_text = Some e \<Longrightarrow>
   enviar_canal b k canal tbl =
     ([asyncio_sleep 5, bot_send_message (fst canal) broadcast_text (Some e),
       logger_error (erro_enviar (fst canal) e), asyncio_sleep 10], tbl)"
  by (simp add: enviar_canal_def Let_def)

lemma enviar_canal_cases:
  obtains (skip) "get_last_interaction_date (fst canal) tbl = Some (local_date (datetime_now b k))"
  | (ok) "get_last_interaction_date (fst canal) tbl \<noteq> Some (local_date (datetime_now b k))"
         "send_message b k (fst canal) broadcast_text = None"
  | (raises) e where "get_last_interaction_date (fst canal) tbl \<noteq> Some (local_date (datetime_now b k))"
         "send_message b k (fst canal) broadcast_text = Some e"
  by (cases "send_message b k (fst canal) broadcast_text") auto

lemma enviar_canal_keys: "map fst (snd (enviar_canal b k canal tbl)) = map fst tbl"
  by (cases rule: enviar_canal_cases [of canal tbl b k])
     (simp_all add: enviar_canal_skip enviar_canal_ok enviar_canal_raises)

lemma enviar_canal_other:
  "c \<noteq> fst canal \<Longrightarrow>
   get_last_interaction_date c (snd (enviar_canal b k canal tbl)) = get_last_interaction_date c tbl"
  by (cases rule: enviar_canal_cases [of canal tbl b k])
     (simp_all add: enviar_canal_skip enviar_canal_ok enviar_canal_raises lookup_update_other)

lemma enviar_canal_attempted: "set (attempted (fst (enviar_canal b k canal tbl))) \<subseteq> {fst canal}"
  by (cases rule: enviar_canal_cases [of canal tbl b k])
     (simp_all add: enviar_canal_skip enviar_canal_ok enviar_canal_raises attempted_def)

lemma enviar_canal_rows:
  "r \<in> set (snd (enviar_canal b k canal tbl)) \<Longrightarrow>
   r \<in> set tbl \<or> fst r \<in> set (delivered (fst (enviar_canal b k canal tbl)))"
  by (cases rule: enviar_canal_cases [of canal tbl b k])
     (auto simp: enviar_canal_skip enviar_canal_ok enviar_canal_raises delivered_def
           dest: update_rows)

text \<open>The loop.\<close>

lemma enviar_canais_Cons:
  "enviar_canais b k (canal # cs) tbl =
     (fst (enviar_canal b k canal tbl)
        @ fst (enviar_canais b (Suc k) cs (snd (enviar_canal b k canal tbl))),
      snd (enviar_canais b (Suc k) cs (snd (enviar_canal b k canal tbl))))"
  by (simp add: split_beta)

lemma enviar_canais_append:
  "enviar_canais b k (xs @ ys) tbl =
     (case enviar_canais b k xs tbl of
        (e1, t1) \<Rightarrow> (case enviar_canais b (k + length xs) ys t1 of (e2, t2) \<Rightarrow> (e1 @ e2, t2)))"
  by (induction xs arbitrary: k tbl) (simp_all split: prod.splits)

lemma enviar_canais_keys: "map fst (snd (enviar_canais b k cs tbl)) = map fst tbl"
proof (induction cs arbitrary: k tbl)
  case Nil
  then show ?case by simp
next
  case (Cons canal cs)
  have "map fst (snd (enviar_canais b (Suc k) cs (snd (enviar_canal b k canal tbl)))) = map fst tbl"
    by (simp add: Cons.IH enviar_canal_keys)
  then show ?case by (simp only: enviar_canais_Cons snd_conv)
qed

lemma enviar_canais_other:
  "c \<notin> set (map fst cs) \<Longrightarrow>
   get_last_interaction_date c (snd (enviar_canais b k cs tbl)) = get_last_interaction_date c tbl"
proof (induction cs arbitrary: k tbl)
  case Nil
  then show ?case by simp
next
  case (Cons canal cs)
  then have "get_last_interaction_date c (snd (enviar_canais b (Suc k) cs (snd (enviar_canal b k canal tbl))))
     = get_last_interaction_date c tbl"
    by (simp add: enviar_canal_other)
  then show ?case by (simp only: enviar_canais_Cons snd_conv)
qed

lemma enviar_canais_attempted:
  "set (attempted (fst (enviar_canais b k cs tbl))) \<subseteq> set (map fst cs)"
proof (induction cs arbitrary: k tbl)
  case Nil
  then show ?case by (simp add: attempted_def)
next
  case (Cons canal cs)
  have "set (attempted (fst (enviar_canal b k canal tbl))) \<subseteq> {fst canal}"
    by (rule enviar_canal_attempted)
  moreover have "set (attempted (fst (enviar_canais b (Suc k) cs (snd (enviar_canal b k canal tbl)))))
      \<subseteq> set (map fst cs)"
    by (rule Cons.IH)
  ultimately show ?case by (auto simp only: enviar_canais_Cons fst_conv attempted_append set_append list.set list.map)
qed

lemma delivered_attempted: "set (delivered evs) \<subseteq> set (attempted evs)"
  by (auto simp: delivered_def attempted_def)

lemma enviar_canais_rows:
  "r \<in> set (snd (enviar_canais b k cs tbl)) \<Longrightarrow>
   r \<in> set tbl \<or> fst r \<in> set (delivered (fst (enviar_canais b k cs tbl)))"
proof (induction cs arbitrary: k tbl)
  case Nil
  then show ?case by simp
next
  case (Cons canal cs)
  obtain e1 t1 where s1: "enviar_canal b k canal tbl = (e1, t1)" by (cases "enviar_canal b k canal tbl")
  obtain e2 t2 where s2: "enviar_canais b (Suc k) cs t1 = (e2, t2)" by (cases "enviar_canais b (Suc k) cs t1")
  from Cons.prems s1 s2 have "r \<in> set t2" by simp
  with Cons.IH [of "Suc k" t1] s2 have "r \<in> set t1 \<or> fst r \<in> set (delivered e2)" by simp
  moreover have "r \<in> set t1 \<Longrightarrow> r \<in> set tbl \<or> fst r \<in> set (delivered e1)"
    using enviar_canal_rows [of r b k canal tbl] s1 by simp
  ultimately show ?case using s1 s2 by (auto simp: delivered_append)
qed

text \<open>
  The run seen from one row: the rows before it, its own iteration, the rows after it.
\<close>

lemma run_split:
  "enviar_mensagem_programada b (pre @ canal # post) =
     (fst (enviar_canais b 0 pre (pre @ canal # post))
        @ fst (enviar_canal b (length pre) canal (snd (enviar_canais b 0 pre (pre @ canal # post))))
        @ fst (enviar_canais b (Suc (length pre)) post
                 (snd (enviar_canal b (length pre) canal (snd (enviar_canais b 0 pre (pre @ canal # post)))))),
      snd (enviar_canais b (Suc (length pre)) post
             (snd (enviar_canal b (length pre) canal (snd (enviar_canais b 0 pre (pre @ canal # post)))))))"
  by (simp add: enviar_mensagem_programada_def get_canais_def enviar_canais_append split_beta)

lemma enviar_canal_attempted_iff:
  "fst canal \<in> set (attempted (fst (enviar_canal b k canal tbl)))
     \<longleftrightarrow> get_last_interaction_date (fst canal) tbl \<noteq> Some (local_date (datetime_now b k))"
  by (cases rule: enviar_canal_cases [of canal tbl b k])
     (simp_all add: enviar_canal_skip enviar_canal_ok enviar_canal_raises attempted_def)

lemma enviar_canal_delivered_iff:
  "fst canal \<in> set (delivered (fst (enviar_canal b k canal tbl)))
     \<longleftrightarrow> get_last_interaction_date (fst canal) tbl \<noteq> Some (local_date (datetime_now b k))
          \<and> send_message b k (fst canal) broadcast_text = None"
  by (cases rule: enviar_canal_cases [of canal tbl b k])
     (simp_all add: enviar_canal_skip enviar_canal_ok enviar_canal_raises delivered_def)

lemma enviar_canal_date:
  "fst canal \<in> set (map fst tbl) \<Longrightarrow>
   get_last_interaction_date (fst canal) (snd (enviar_canal b k canal tbl)) =
     (if get_last_interaction_date (fst canal) tbl \<noteq> Some (local_date (datetime_now b k))
         \<and> send_message b k (fst canal) broadcast_text = None
      then Some (local_date (datetime_now b k))
      else get_last_interaction_date (fst canal) tbl)"
  by (cases rule: enviar_canal_cases [of canal tbl b k])
     (simp_all add: enviar_canal_skip enviar_canal_ok enviar_canal_raises lookup_update_same)

lemma run_attempted_iff:
  assumes "distinct (map fst (pre @ (c, d) # post))"
  shows "c \<in> set (attempted (fst (enviar_mensagem_programada b (pre @ (c, d) # post))))
           \<longleftrightarrow> d \<noteq> Some (local_date (datetime_now b (length pre)))"
proof -
  let ?tbl = "pre @ (c, d) # post"
  let ?r1 = "enviar_canais b 0 pre ?tbl"
  let ?r2 = "enviar_canal b (length pre) (c, d) (snd ?r1)"
  let ?r3 = "enviar_canais b (Suc (length pre)) post (snd ?r2)"
  from assms have pre: "c \<notin> set (map fst pre)" and post: "c \<notin> set (map fst post)" by auto
  have "get_last_interaction_date c ?tbl = d"
    using assms by (intro lookup_row) simp_all
  with pre have d1: "get_last_interaction_date c (snd ?r1) = d"
    by (simp add: enviar_canais_other)
  have a1: "c \<notin> set (attempted (fst ?r1))"
    using enviar_canais_attempted [of b 0 pre ?tbl] pre by blast
  have a3: "c \<notin> set (attempted (fst ?r3))"
    using enviar_canais_attempted [of b "Suc (length pre)" post "snd ?r2"] post by blast
  have a2: "c \<in> set (attempted (fst ?r2)) \<longleftrightarrow> d \<noteq> Some (local_date (datetime_now b (length pre)))"
    using enviar_canal_attempted_iff [of "(c, d)" b "length pre" "snd ?r1"] d1 by simp
  show ?thesis
    using a1 a2 a3 by (simp add: run_split attempted_append)
qed

lemma run_delivered_iff:
  assumes "distinct (map fst (pre @ (c, d) # post))"
  shows "c \<in> set (delivered (fst (enviar_mensagem_programada b (pre @ (c, d) # post))))
           \<longleftrightarrow> d \<noteq> Some (local_date (datetime_now b (length pre)))
                \<and> send_message b (length pre) c broadcast_text = None"
proof -
  let ?tbl = "pre @ (c, d) # post"
  let ?r1 = "enviar_canais b 0 pre ?tbl"
  let ?r2 = "enviar_canal b (length pre) (c, d) (snd ?r1)"
  let ?r3 = "enviar_canais b (Suc (length pre)) post (snd ?r2)"
  from assms have pre: "c \<notin> set (map fst pre)" and post: "c \<notin> set (map fst post)" by auto
  have "get_last_interaction_date c ?tbl = d"
    using assms by (intro lookup_row) simp_all
  with pre have d1: "get_last_interaction_date c (snd ?r1) = d"
    by (simp add: enviar_canais_other)
  have a1: "c \<notin> set (delivered (fst ?r1))"
    using enviar_canais_attempted [of b 0 pre ?tbl] delivered_attempted [of "fst ?r1"] pre by blast
  have a3: "c \<notin> set (delivered (fst ?r3))"
    using enviar_canais_attempted [of b "Suc (length pre)" post "snd ?r2"]
      delivered_attempted [of "fst ?r3"] post by blast
  have a2: "c \<in> set (delivered (fst ?r2)) \<longleftrightarrow> d \<noteq> Some (local_date (datetime_now b (length pre)))
                \<and> send_message b (length pre) c broadcast_text = None"
    using enviar_canal_delivered_iff [of "(c, d)" b "length pre" "snd ?r1"] d1 by simp
  show ?thesis
    using a1 a2 a3 by (simp add: run_split delivered_append)
qed

lemma run_date:
  assumes "distinct (map fst (pre @ (c, d) # post))"
  shows "get_last_interaction_date c (snd (enviar_mensagem_programada b (pre @ (c, d) # post))) =
           (if d \<noteq> Some (local_date (datetime_now b (length pre)))
               \<and> send_message b (length pre) c broadcast_text = None
            then Some (local_date (datetime_now b (length pre))) else d)"
proof -
  let ?tbl = "pre @ (c, d) # post"
  let ?r1 = "enviar_canais b 0 pre ?tbl"
  let ?r2 = "enviar_canal b (length pre) (c, d) (snd ?r1)"
  let ?r3 = "enviar_canais b (Suc (length pre)) post (snd ?r2)"
  from assms have pre: "c \<notin> set (map fst pre)" and post: "c \<notin> set (map fst post)" by auto
  have "get_last_interaction_date c ?tbl = d"
    using assms by (intro lookup_row) simp_all
  with pre have d1: "get_last_interaction_date c (snd ?r1) = d"
    by (simp add: enviar_canais_other)
  have "map fst (snd ?r1) = map fst ?tbl" by (rule enviar_canais_keys)
  then have k1: "c \<in> set (map fst (snd ?r1))" by simp
  have d2: "get_last_interaction_date c (snd ?r2) =
           (if d \<noteq> Some (local_date (datetime_now b (length pre)))
               \<and> send_message b (length pre) c broadcast_text = None
            then Some (local_date (datetime_now b (length pre))) else d)"
    using enviar_canal_date [of "(c, d)" "snd ?r1" b "length pre"] k1
    by (simp only: fst_conv d1)
  have "get_last_interaction_date c (snd ?r3) = get_last_interaction_date c (snd ?r2)"
    using post by (rule enviar_canais_other)
  with d2 show ?thesis by (simp add: run_split)
qed

lemma enviar_canal_brasilia:
  "enviar_canal (b\<lparr>datetime_now := \<lambda>k. (datetime_now b k)\<lparr>brasilia_date := f k\<rparr>\<rparr>) k canal tbl
     = enviar_canal b k canal tbl"
  by (simp add: enviar_canal_def Let_def)

lemma enviar_canais_brasilia:
  "enviar_canais (b\<lparr>datetime_now := \<lambda>k. (datetime_now b k)\<lparr>brasilia_date := f k\<rparr>\<rparr>) k cs tbl
     = enviar_canais b k cs tbl"
  by (induction cs arbitrary: k tbl) (simp_all add: enviar_canal_brasilia)

lemma brasilia_date_unused:
  "enviar_mensagem_programada (b\<lparr>datetime_now := \<lambda>k. (datetime_now b k)\<lparr>brasilia_date := f k\<rparr>\<rparr>) tbl
     = enviar_mensagem_programada b tbl"
  by (simp add: enviar_mensagem_programada_def enviar_canais_brasilia)

lemma spec_eligible_not_future:
  "(case d of None \<Rightarrow> True | Some x \<Rightarrow> x \<le> today) \<Longrightarrow>
   spec_eligible d today \<longleftrightarrow> d \<noteq> Some today"
  by (auto simp: spec_eligible_def split: option.splits)

subsection \<open>No exception leaves the run\<close>

lemma enviar_canal_exc_returns:
  "enviar_canal_exc b k canal tbl =
     (fst (enviar_canal b k canal tbl), Inr (snd (enviar_canal b k canal tbl)))"
  by (cases "send_message b k (fst canal) broadcast_text")
     (simp_all add: enviar_canal_exc_def enviar_canal_def enviar_try_def enviar_except_def Let_def)

lemma enviar_canais_exc_returns:
  "enviar_canais_exc b k cs tbl =
     (fst (enviar_canais b k cs tbl), Inr (snd (enviar_canais b k cs tbl)))"
proof (induction cs arbitrary: k tbl)
  case Nil
  show ?case by simp
next
  case (Cons canal cs)
  show ?case
    by (simp add: enviar_canal_exc_returns Cons.IH split_beta)
qed

lemma run_exc_returns:
  "enviar_mensagem_programada_exc b tbl =
     (fst (enviar_mensagem_programada b tbl), Inr (snd (enviar_mensagem_programada b tbl)))"
  by (simp add: enviar_mensagem_programada_exc_def enviar_mensagem_programada_def
      enviar_canais_exc_returns)

subsection \<open>Runs of the scenarios\<close>

lemmas scen = fixed_clock_def all_delivered_def raises_for_def host_brasilia_def
  host_brasilia_200_fails_def host_utc_def enviar_mensagem_programada_def get_canais_def
  enviar_canal_def get_last_interaction_date_def update_last_interaction_date_def
  attempted_def delivered_def Let_def

lemma run_two_channels: "enviar_mensagem_programada host_brasilia [(100, Some ''2024-01-01''), (200, None)]
  = ([asyncio_sleep 5, bot_send_message 100 broadcast_text None,
      asyncio_sleep 5, bot_send_message 200 broadcast_text None],
     [(100, Some ''2024-01-02''), (200, Some ''2024-01-02'')])"
  by (simp add: scen)

lemma run_again_same_day: "enviar_mensagem_programada host_brasilia [(100, Some ''2024-01-02''), (200, Some ''2024-01-02'')]
  = ([logger_info (canal_ja_atualizado 100), logger_info (canal_ja_atualizado 200)],
     [(100, Some ''2024-01-02''), (200, Some ''2024-01-02'')])"
  by (simp add: scen)

lemma run_one_send_raises: "enviar_mensagem_programada host_brasilia_200_fails [(200, None), (100, Some ''2024-01-01'')]
  = ([asyncio_sleep 5, bot_send_message 200 broadcast_text (Some (Exception ''Forbidden'')),
      logger_error (erro_enviar 200 (Exception ''Forbidden'')), asyncio_sleep 10,
      asyncio_sleep 5, bot_send_message 100 broadcast_text None],
     [(200, None), (100, Some ''2024-01-02'')])"
  by (simp add: scen)

lemma run_utc_host: "enviar_mensagem_programada host_utc [(100, Some ''2024-01-01'')]
  = ([asyncio_sleep 5, bot_send_message 100 broadcast_text None], [(100, Some ''2024-01-02'')])"
  by (simp add: scen)

section \<open>The once-per-day gate\<close>

text \<open>
  C1. The date the gate compares with is the date of the process's own zone, read
  again in every iteration; the date in \<open>brasilia_tz\<close> is never read
  (\<open>brasilia_date_unused\<close>). On a host that runs in UTC, the job of 21:30 in
  Brasilia on 2024-01-01 fires at 00:30 UTC on 2024-01-02: channel 100, whose stored
  date is already the date of that day in Brasilia, is sent to again and stamped
  with the UTC date.
\<close>

theorem gate_reads_process_local_date:
  "brasilia_date (datetime_now host_utc 0) = ''2024-01-01''
   \<and> get_last_interaction_date 100 [(100, Some ''2024-01-01'')]
        = Some (brasilia_date (datetime_now host_utc 0))
   \<and> enviar_mensagem_programada host_utc [(100, Some ''2024-01-01'')]
        = ([asyncio_sleep 5, bot_send_message 100 broadcast_text None],
           [(100, Some ''2024-01-02'')])"
  by (simp add: scen)

lemma gate_skips_on_equality:
  assumes "primary_key tbl" and "tbl = pre @ (c, d) # post"
  shows "(c \<in> set (attempted (fst (enviar_mensagem_programada b tbl)))
            \<longleftrightarrow> d \<noteq> Some (local_date (datetime_now b (length pre))))
       \<and> (if d = Some (local_date (datetime_now b (length pre)))
          then c \<notin> set (attempted (fst (enviar_mensagem_programada b tbl)))
             \<and> get_last_interaction_date c (snd (enviar_mensagem_programada b tbl)) = d
          else c \<in> set (attempted (fst (enviar_mensagem_programada b tbl))))"
proof -
  from assms have dist: "distinct (map fst (pre @ (c, d) # post))"
    by (simp add: primary_key_def)
  have att: "c \<in> set (attempted (fst (enviar_mensagem_programada b tbl)))
            \<longleftrightarrow> d \<noteq> Some (local_date (datetime_now b (length pre)))"
    unfolding assms(2) by (rule run_attempted_iff [OF dist])
  have date: "get_last_interaction_date c (snd (enviar_mensagem_programada b tbl)) =
           (if d \<noteq> Some (local_date (datetime_now b (length pre)))
               \<and> send_message b (length pre) c broadcast_text = None
            then Some (local_date (datetime_now b (length pre))) else d)"
    unfolding assms(2) by (rule run_date [OF dist])
  show ?thesis
  proof (cases "d = Some (local_date (datetime_now b (length pre)))")
    case True
    with att date show ?thesis by simp
  next
    case False
    with att show ?thesis by simp
  qed
qed

text \<open>
  C2. The table obeys the primary key and the invariant of the data model: the stored
  date of the row is not later than the date read in its iteration. Then a send to the
  channel of the row is attempted if and only if its stored date is absent or
  strictly less than that date; when the stored date equals that date there is no
  send call for the channel and its stored date is the same after the run.
\<close>

theorem send_iff_absent_or_earlier:
  assumes "primary_key tbl" and "tbl = pre @ (c, d) # post"
    and "spec_not_future d (local_date (datetime_now b (length pre)))"
  shows "(c \<in> set (attempted (fst (enviar_mensagem_programada b tbl)))
            \<longleftrightarrow> spec_eligible d (local_date (datetime_now b (length pre))))
       \<and> (if d = Some (local_date (datetime_now b (length pre)))
          then c \<notin> set (attempted (fst (enviar_mensagem_programada b tbl)))
             \<and> get_last_interaction_date c (snd (enviar_mensagem_programada b tbl)) = d
          else c \<in> set (attempted (fst (enviar_mensagem_programada b tbl))))"
proof -
  have "spec_eligible d (local_date (datetime_now b (length pre)))
          \<longleftrightarrow> d \<noteq> Some (local_date (datetime_now b (length pre)))"
    using assms(3) unfolding spec_not_future_def by (rule spec_eligible_not_future)
  with gate_skips_on_equality [OF assms(1,2), of b] show ?thesis by simp
qed

theorem send_iff_absent_or_earlier_witness:
  "primary_key [(100, Some ''2024-01-01''), (200, Some ''2024-01-02''), (300, None)]
   \<and> spec_not_future (Some ''2024-01-02'') (local_date (datetime_now host_brasilia 1))
   \<and> spec_eligible (Some ''2024-01-02'') (local_date (datetime_now host_brasilia 1)) = False
   \<and> 200 \<notin> set (attempted (fst (enviar_mensagem_programada host_brasilia
         [(100, Some ''2024-01-01''), (200, Some ''2024-01-02''), (300, None)])))
   \<and> get_last_interaction_date 200 (snd (enviar_mensagem_programada host_brasilia
         [(100, Some ''2024-01-01''), (200, Some ''2024-01-02''), (300, None)])) = Some ''2024-01-02''
   \<and> spec_not_future (Some ''2024-01-01'') (local_date (datetime_now host_brasilia 0))
   \<and> spec_eligible (Some ''2024-01-01'') (local_date (datetime_now host_brasilia 0))
   \<and> 100 \<in> set (attempted (fst (enviar_mensagem_programada host_brasilia
         [(100, Some ''2024-01-01''), (200, Some ''2024-01-02''), (300, None)])))"
proof -
  let ?tbl = "[(100, Some ''2024-01-01''), (200, Some ''2024-01-02''), (300, None)] :: row list"
  have pk: "primary_key ?tbl"
    by (simp add: primary_key_def)
  have eq200: "?tbl = [(100, Some ''2024-01-01'')] @ (200, Some ''2024-01-02'') # [(300, None)]"
    by simp
  have nf200: "spec_not_future (Some ''2024-01-02'')
      (local_date (datetime_now host_brasilia (length [(100::int, Some ''2024-01-01'')])))"
    by (simp add: spec_not_future_def host_brasilia_def fixed_clock_def)
  have eq100: "?tbl = [] @ (100, Some ''2024-01-01'') # [(200, Some ''2024-01-02''), (300, None)]"
    by simp
  have nf100: "spec_not_future (Some ''2024-01-01'')
      (local_date (datetime_now host_brasilia (length ([] :: row list))))"
    by (simp add: spec_not_future_def host_brasilia_def fixed_clock_def)
  show ?thesis
    using pk nf200 nf100 send_iff_absent_or_earlier [OF pk eq200 nf200]
      send_iff_absent_or_earlier [OF pk eq100 nf100]
    by (simp add: host_brasilia_def fixed_clock_def spec_eligible_def)
qed

text \<open>
  C3. The send to the channel of a row raises; the row may be anywhere in the table,
  the last or the only one included. Then the channel was attempted and not
  delivered, and its stored date is what it was; every later row is attempted exactly
  when its own stored date differs from the date read in its iteration, as it would
  be had the earlier send returned; and no exception leaves the run: it returns, with
  these events and this table.
\<close>

theorem failed_send_isolated:
  assumes "primary_key tbl"
    and "tbl = pre @ (c, d) # post"
    and "d \<noteq> Some (local_date (datetime_now b (length pre)))"
    and "send_message b (length pre) c broadcast_text = Some e"
  shows "c \<in> set (attempted (fst (enviar_mensagem_programada b tbl)))
       \<and> c \<notin> set (delivered (fst (enviar_mensagem_programada b tbl)))
       \<and> get_last_interaction_date c (snd (enviar_mensagem_programada b tbl)) = d
       \<and> (\<forall>j. j < length post \<longrightarrow>
            (fst (post ! j) \<in> set (attempted (fst (enviar_mensagem_programada b tbl)))
               \<longleftrightarrow> snd (post ! j) \<noteq> Some (local_date (datetime_now b (Suc (length pre + j))))))
       \<and> enviar_mensagem_programada_exc b tbl =
           (fst (enviar_mensagem_programada b tbl), Inr (snd (enviar_mensagem_programada b tbl)))"
proof -
  from assms(1,2) have dist: "distinct (map fst (pre @ (c, d) # post))"
    by (simp add: primary_key_def)
  have att: "c \<in> set (attempted (fst (enviar_mensagem_programada b tbl)))"
    unfolding assms(2) using run_attempted_iff [OF dist, of b] assms(3) by simp
  have del: "c \<notin> set (delivered (fst (enviar_mensagem_programada b tbl)))"
    unfolding assms(2) using run_delivered_iff [OF dist, of b] assms(4) by simp
  have date: "get_last_interaction_date c (snd (enviar_mensagem_programada b tbl)) = d"
    unfolding assms(2) using run_date [OF dist, of b] assms(4) by simp
  have later: "fst (post ! j) \<in> set (attempted (fst (enviar_mensagem_programada b tbl)))
               \<longleftrightarrow> snd (post ! j) \<noteq> Some (local_date (datetime_now b (Suc (length pre + j))))"
    if j: "j < length post" for j
  proof -
    have post: "post = take j post @ (fst (post ! j), snd (post ! j)) # drop (Suc j) post"
      using j by (simp add: id_take_nth_drop)
    have tbl': "tbl = (pre @ (c, d) # take j post)
        @ (fst (post ! j), snd (post ! j)) # drop (Suc j) post"
      using assms(2) post by simp
    from assms(1) have dist': "distinct (map fst ((pre @ (c, d) # take j post)
        @ (fst (post ! j), snd (post ! j)) # drop (Suc j) post))"
      unfolding primary_key_def tbl' .
    have len: "length (pre @ (c, d) # take j post) = Suc (length pre + j)"
      using j by simp
    have "fst (post ! j) \<in> set (attempted (fst (enviar_mensagem_programada b tbl)))
            \<longleftrightarrow> snd (post ! j)
                 \<noteq> Some (local_date (datetime_now b (length (pre @ (c, d) # take j post))))"
      by (subst tbl', rule run_attempted_iff [OF dist'])
    then show ?thesis by (simp only: len)
  qed
  have returns: "enviar_mensagem_programada_exc b tbl =
           (fst (enviar_mensagem_programada b tbl), Inr (snd (enviar_mensagem_programada b tbl)))"
    by (rule run_exc_returns)
  from att del date later returns show ?thesis by blast
qed

theorem failed_send_isolated_witness:
  "primary_key [(100, Some ''2024-01-01''), (200, None), (300, None)]
   \<and> send_message host_brasilia_200_fails 1 200 broadcast_text = Some (Exception ''Forbidden'')
   \<and> 200 \<in> set (attempted (fst (enviar_mensagem_programada host_brasilia_200_fails
         [(100, Some ''2024-01-01''), (200, None), (300, None)])))
   \<and> 200 \<notin> set (delivered (fst (enviar_mensagem_programada host_brasilia_200_fails
         [(100, Some ''2024-01-01''), (200, None), (300, None)])))
   \<and> get_last_interaction_date 200 (snd (enviar_mensagem_programada host_brasilia_200_fails
         [(100, Some ''2024-01-01''), (200, None), (300, None)])) = None
   \<and> 300 \<in> set (attempted (fst (enviar_mensagem_programada host_brasilia_200_fails
         [(100, Some ''2024-01-01''), (200, None), (300, None)])))
   \<and> snd (enviar_mensagem_programada_exc host_brasilia_200_fails
         [(100, Some ''2024-01-01''), (200, None), (300, None)])
       = Inr [(100, Some ''2024-01-02''), (200, None), (300, Some ''2024-01-02'')]"
proof -
  let ?tbl = "[(100, Some ''2024-01-01''), (200, None), (300, None)] :: row list"
  have pk: "primary_key ?tbl"
    by (simp add: primary_key_def)
  have eq: "?tbl = [(100, Some ''2024-01-01'')] @ (200, None) # [(300, None)]"
    by simp
  have gate: "None \<noteq> Some (local_date (datetime_now host_brasilia_200_fails
      (length [(100::int, Some ''2024-01-01'')])))"
    by simp
  have fails: "send_message host_brasilia_200_fails (length [(100::int, Some ''2024-01-01'')])
      200 broadcast_text = Some (Exception ''Forbidden'')"
    by (simp add: host_brasilia_200_fails_def raises_for_def)
  have run: "snd (enviar_mensagem_programada host_brasilia_200_fails ?tbl)
      = [(100, Some ''2024-01-02''), (200, None), (300, Some ''2024-01-02'')]"
    by (simp add: scen)
  from failed_send_isolated [OF pk eq gate fails]
  have "200 \<in> set (attempted (fst (enviar_mensagem_programada host_brasilia_200_fails ?tbl)))"
    and "200 \<notin> set (delivered (fst (enviar_mensagem_programada host_brasilia_200_fails ?tbl)))"
    and "get_last_interaction_date 200 (snd (enviar_mensagem_programada host_brasilia_200_fails ?tbl))
           = None"
    and "\<forall>j. j < length [(300::int, None :: string option)] \<longrightarrow>
            (fst ([(300::int, None :: string option)] ! j)
               \<in> set (attempted (fst (enviar_mensagem_programada host_brasilia_200_fails ?tbl)))
               \<longleftrightarrow> snd ([(300::int, None :: string option)] ! j) \<noteq> Some (local_date
                    (datetime_now host_brasilia_200_fails
                       (Suc (length [(100::int, Some ''2024-01-01'')] + j)))))"
    and exc: "enviar_mensagem_programada_exc host_brasilia_200_fails ?tbl =
           (fst (enviar_mensagem_programada host_brasilia_200_fails ?tbl),
            Inr (snd (enviar_mensagem_programada host_brasilia_200_fails ?tbl)))"
    by blast+
  then have "300 \<in> set (attempted (fst (enviar_mensagem_programada host_brasilia_200_fails ?tbl)))"
    by (simp add: host_brasilia_200_fails_def fixed_clock_def)
  with pk fails \<open>200 \<in> _\<close> \<open>200 \<notin> _\<close> \<open>get_last_interaction_date 200 _ = None\<close> exc run
  show ?thesis by simp
qed

text \<open>
  C4. A row whose stored date is absent or differs from the date read in its
  iteration, and whose send returns, carries that date after the run.
\<close>

theorem successful_send_stamps_today:
  assumes "primary_key tbl"
    and "tbl = pre @ (c, d) # post"
    and "d \<noteq> Some (local_date (datetime_now b (length pre)))"
    and "send_message b (length pre) c broadcast_text = None"
  shows "c \<in> set (delivered (fst (enviar_mensagem_programada b tbl)))
       \<and> get_last_interaction_date c (snd (enviar_mensagem_programada b tbl))
           = Some (local_date (datetime_now b (length pre)))"
proof -
  from assms(1,2) have dist: "distinct (map fst (pre @ (c, d) # post))"
    by (simp add: primary_key_def)
  have del: "c \<in> set (delivered (fst (enviar_mensagem_programada b tbl)))"
    unfolding assms(2) using run_delivered_iff [OF dist, of b] assms(3,4) by simp
  have date: "get_last_interaction_date c (snd (enviar_mensagem_programada b tbl))
           = Some (local_date (datetime_now b (length pre)))"
    unfolding assms(2) using run_date [OF dist, of b] assms(3,4) by simp
  from del date show ?thesis by simp
qed

theorem successful_send_stamps_today_witness:
  "primary_key [(100, Some ''2024-01-01''), (200, None)]
   \<and> send_message host_brasilia 1 200 broadcast_text = None
   \<and> 200 \<in> set (delivered (fst (enviar_mensagem_programada host_brasilia
         [(100, Some ''2024-01-01''), (200, None)])))
   \<and> get_last_interaction_date 200 (snd (enviar_mensagem_programada host_brasilia
         [(100, Some ''2024-01-01''), (200, None)])) = Some ''2024-01-02''"
proof -
  have pk: "primary_key [(100, Some ''2024-01-01''), (200, None)]"
    by (simp add: primary_key_def)
  have eq: "[(100, Some ''2024-01-01''), (200, None)] = [(100, Some ''2024-01-01'')] @ (200, None) # []"
    by simp
  have gate: "None \<noteq> Some (local_date (datetime_now host_brasilia (length [(100::int, Some ''2024-01-01'')])))"
    by simp
  have ok: "send_message host_brasilia (length [(100::int, Some ''2024-01-01'')]) 200 broadcast_text = None"
    by (simp add: host_brasilia_def all_delivered_def)
  show ?thesis
    using pk ok successful_send_stamps_today [OF pk eq gate ok]
    by (simp add: host_brasilia_def fixed_clock_def)
qed

text \<open>
  C8. The run keeps the rows' keys as they are, in number and order, and every row of
  the resulting table is a row of the table before the run or the row of a channel
  whose send returned in this run.
\<close>

theorem dispatcher_frame:
  "map fst (snd (enviar_mensagem_programada b tbl)) = map fst tbl
   \<and> (\<forall>r \<in> set (snd (enviar_mensagem_programada b tbl)).
         r \<in> set tbl \<or> fst r \<in> set (delivered (fst (enviar_mensagem_programada b tbl))))"
  unfolding enviar_mensagem_programada_def get_canais_def
  using enviar_canais_keys [of b 0 tbl tbl] enviar_canais_rows [of _ b 0 tbl tbl] by blast

theorem dispatcher_frame_witness:
  "map fst (snd (enviar_mensagem_programada host_brasilia_200_fails
         [(200, None), (100, Some ''2024-01-01''), (300, Some ''2024-01-02'')])) = [200, 100, 300]
   \<and> snd (enviar_mensagem_programada host_brasilia_200_fails
         [(200, None), (100, Some ''2024-01-01''), (300, Some ''2024-01-02'')])
       = [(200, None), (100, Some ''2024-01-02''), (300, Some ''2024-01-02'')]
   \<and> delivered (fst (enviar_mensagem_programada host_brasilia_200_fails
         [(200, None), (100, Some ''2024-01-01''), (300, Some ''2024-01-02'')])) = [100]"
  using dispatcher_frame [of host_brasilia_200_fails
      "[(200, None), (100, Some ''2024-01-01''), (300, Some ''2024-01-02'')]"]
  by (simp add: scen)

section \<open>Welcome flow and membership watcher\<close>

text \<open>
  C5. When the welcome send raises, the handler makes that one call and no other, logs
  the error, and returns the table unchanged: \<open>add_canal\<close> is not reached.
\<close>

theorem welcome_send_failure_skips_registration:
  assumes "send_message ctx 0 chat welcome_text = Some e"
  shows "send_welcome_message ctx chat tbl =
           ([bot_send_message chat welcome_text (Some e), logger_error (erro_boas_vindas chat e)],
            tbl)"
  using assms by (simp add: send_welcome_message_def)

theorem welcome_send_failure_skips_registration_witness:
  "send_message host_brasilia_200_fails 0 200 welcome_text = Some (Exception ''Forbidden'')
   \<and> send_welcome_message host_brasilia_200_fails 200 [(100, None)] =
       ([bot_send_message 200 welcome_text (Some (Exception ''Forbidden'')),
         logger_error (erro_boas_vindas 200 (Exception ''Forbidden''))],
        [(100, None)])
   \<and> 200 \<notin> set (map fst (snd (send_welcome_message host_brasilia_200_fails 200 [(100, None)])))"
proof -
  have fails: "send_message host_brasilia_200_fails 0 200 welcome_text = Some (Exception ''Forbidden'')"
    by (simp add: host_brasilia_200_fails_def raises_for_def)
  show ?thesis
    using fails welcome_send_failure_skips_registration [OF fails, of "[(100, None)]"]
    by simp
qed

lemma watcher_never_sends:
  "attempted (fst (handle (chat_member_event update ctx) tbl)) = []
   \<and> snd (handle (chat_member_event update ctx) tbl) = tbl"
  by (simp add: on_chat_member_update_def update_chat_def attempted_def
      split: option.splits)

text \<open>
  C6. The bot is promoted to administrator in a chat. The handler is called with the
  \<open>my_chat_member\<close> update, reads \<open>new_chat_member\<close> of \<open>update.chat_member\<close>, which
  is \<open>None\<close>, and raises before any send: the application logs the exception, nothing
  is sent and no channel is registered. With the same change carried in
  \<open>chat_member\<close> the handler passes both tests and raises at \<open>update.chat\<close>, again
  before the welcome flow is reached.
\<close>

theorem watcher_raises_before_send:
  "my_chat_member promoted = Some promotion
   \<and> user_id (new_chat_member promotion) = bot_id host_brasilia
   \<and> status (new_chat_member promotion) = ''administrator''
   \<and> on_chat_member_update promoted host_brasilia [] =
       Inl (AttributeError ''NoneType object has no attribute new_chat_member'')
   \<and> handle (chat_member_event promoted host_brasilia) [] =
       ([logger_error (no_error_handlers
           (AttributeError ''NoneType object has no attribute new_chat_member''))], [])
   \<and> on_chat_member_update promoted_as_chat_member host_brasilia [] =
       Inl (AttributeError ''Update object has no attribute chat'')"
  by (simp add: promoted_def promoted_as_chat_member_def promotion_def host_brasilia_def
      on_chat_member_update_def update_chat_def)

section \<open>Configuration\<close>

text \<open>
  C10. Once the startup check has passed, the value of \<open>ADMIN_ID\<close> is not read
  again: replacing it by any other nonzero value leaves the events of every handler
  and the resulting table the same.
\<close>

theorem admin_id_not_read:
  assumes "ADMIN_ID cfg \<noteq> 0" and "a \<noteq> 0"
  shows "bot_process (cfg\<lparr>ADMIN_ID := a\<rparr>) us tbl = bot_process cfg us tbl"
  using assms by (simp add: bot_process_def config_missing_def)

theorem admin_id_not_read_witness:
  "ADMIN_ID configured \<noteq> 0 \<and> (99::int) \<noteq> 0
   \<and> bot_process (configured\<lparr>ADMIN_ID := 99\<rparr>)
        [chat_member_event promoted host_brasilia, cron_job host_brasilia, start_command,
         callback_query ''como_funciona''] [(- 1001, Some ''2024-01-01'')]
     = Inr ([logger_error (no_error_handlers
               (AttributeError ''NoneType object has no attribute new_chat_member'')),
             asyncio_sleep 5, bot_send_message (- 1001) broadcast_text None,
             reply_text start_text, query_answer, edit_message_text como_funciona_text],
            [(- 1001, Some ''2024-01-02'')])"
proof -
  have c: "ADMIN_ID configured \<noteq> 0" by (simp add: configured_def)
  have a: "(99::int) \<noteq> 0" by simp
  have "bot_process configured
        [chat_member_event promoted host_brasilia, cron_job host_brasilia, start_command,
         callback_query ''como_funciona''] [(- 1001, Some ''2024-01-01'')]
     = Inr ([logger_error (no_error_handlers
               (AttributeError ''NoneType object has no attribute new_chat_member'')),
             asyncio_sleep 5, bot_send_message (- 1001) broadcast_text None,
             reply_text start_text, query_answer, edit_message_text como_funciona_text],
            [(- 1001, Some ''2024-01-02'')])"
    by (simp add: bot_process_def config_missing_def configured_def promoted_def
        on_chat_member_update_def start_def button_def scen)
  with c a admin_id_not_read [OF c a] show ?thesis by simp
qed

end
